theory Spec2Isabelle
  imports Complex_Main
begin

section \<open>The grain bin inventory of DT\_V1\_2.py\<close>

text \<open>
  The script keeps, for every user and bin, a list of grain layers in a remote JSON
  store. A layer is added through a form, grain is unloaded from the bottom of the stack
  by \<open>unload_grain\<close>, and \<open>create_bin_visualization\<close> turns the stack into a moisture
  value per horizontal band of the bin.

  Numbers: Python's floats are modelled as the reals, so sums, differences and quotients
  are exact and rounding is not part of the model. Comparisons, the order of the
  branches and every exception the code can raise are kept as they are written.
\<close>

subsection \<open>Rows, frames and the remote store\<close>

text \<open>One record of the store: the six keys of \<open>new_grain_data\<close>.\<close>

record row =
  Date :: string
  Commodity :: string
  Mass_tonnes :: real
  Test_Weight_kg_m3 :: real
  Moisture_Content_percent :: real
  Height_m :: real

text \<open>
  A data frame is the list of its rows. \<open>fetch_inventory_data\<close> builds a frame with
  \<open>pd.DataFrame(data)\<close> from a non-empty answer and with \<open>pd.DataFrame()\<close> otherwise, so
  the empty list stands for the frame that has no rows and no columns.
\<close>

type_synonym dataframe = "row list"

datatype py_error =
    KeyError string
  | NameError string
  | ZeroDivisionError
  | OverflowError
  | ValueError

text \<open>What the script shows to the user through \<open>st.error\<close>, \<open>st.warning\<close>, \<open>st.success\<close>.\<close>

datatype message =
    Failed_to_fetch_data
  | Failed_to_update_data
  | Not_enough_grain real
  | Inventory_updated
  | Test_weight_must_be_greater_than_zero

text \<open>
  The world the script runs in: the content of the store under
  \<open>users/{user_id}/{bin_id}/inventory\<close> (no data is the empty list), whether the server
  answers a request with \<open>response.ok\<close>, and the messages shown so far.
\<close>

record world =
  inventory :: "string \<times> string \<Rightarrow> row list"
  response_ok :: bool
  shown :: "message list"

definition show_message :: "message \<Rightarrow> world \<Rightarrow> world" where
  "show_message msg w = w\<lparr>shown := shown w @ [msg]\<rparr>"

definition fetch_inventory_data :: "string \<Rightarrow> string \<Rightarrow> world \<Rightarrow> dataframe \<times> world" where
  "fetch_inventory_data user_id bin_id w =
     (if response_ok w then
        (let data = inventory w (user_id, bin_id) in
         if data \<noteq> [] then (data, w) else ([], w))
      else ([], show_message Failed_to_fetch_data w))"

definition update_inventory_data :: "string \<Rightarrow> string \<Rightarrow> row list \<Rightarrow> world \<Rightarrow> world" where
  "update_inventory_data user_id bin_id inventory_data w =
     (if response_ok w then w\<lparr>inventory := (inventory w)((user_id, bin_id) := inventory_data)\<rparr>
      else show_message Failed_to_update_data w)"

subsection \<open>Bin capacity\<close>

text \<open>
  \<open>calculate_bin_capacity\<close> is one arithmetic expression: it has no check of its
  arguments and no \<open>raise\<close>, so the model returns on every input.
\<close>

definition calculate_bin_capacity :: "real \<Rightarrow> real \<Rightarrow> py_error + real" where
  "calculate_bin_capacity diameter height = Inr (pi * (diameter / 2) ^ 2 * height)"

subsection \<open>Unloading\<close>

text \<open>
  \<open>inventory_df['Mass_tonnes']\<close>: the column of a frame. The frame without columns
  has no such key.
\<close>

definition column_Mass_tonnes :: "dataframe \<Rightarrow> py_error + real list" where
  "column_Mass_tonnes df =
     (if df = [] then Inl (KeyError ''Mass_tonnes'') else Inr (map Mass_tonnes df))"

text \<open>Division of two Python floats.\<close>

definition py_div :: "real \<Rightarrow> real \<Rightarrow> py_error + real" where
  "py_div a b = (if b = 0 then Inl ZeroDivisionError else Inr (a / b))"

text \<open>
  The \<open>for\<close> loop of \<open>unload_grain\<close> over the rows still to visit, with the loop's two
  variables \<open>remaining_mass\<close> and \<open>preserved_rows\<close>. The last branch ends with
  \<open>break\<close>: the rows after it are not visited.
\<close>

fun unload_loop :: "real \<Rightarrow> real \<Rightarrow> row list \<Rightarrow> row list \<Rightarrow> py_error + row list" where
  "unload_loop bin_diameter remaining_mass preserved_rows [] = Inr preserved_rows"
| "unload_loop bin_diameter remaining_mass preserved_rows (r # rows) =
     (if remaining_mass \<le> 0 then
        unload_loop bin_diameter remaining_mass (preserved_rows @ [r]) rows
      else if remaining_mass \<ge> Mass_tonnes r then
        unload_loop bin_diameter (remaining_mass - Mass_tonnes r) preserved_rows rows
      else
        (let new_mass = Mass_tonnes r - remaining_mass in
         case py_div (new_mass * 1000)
                (Test_Weight_kg_m3 r * pi * (bin_diameter / 2) ^ 2) of
           Inl e \<Rightarrow> Inl e
         | Inr h \<Rightarrow> Inr (preserved_rows @ [r\<lparr>Mass_tonnes := new_mass, Height_m := h\<rparr>])))"

definition unload_grain ::
  "string \<Rightarrow> string \<Rightarrow> real \<Rightarrow> real \<Rightarrow> world \<Rightarrow> (py_error + unit) \<times> world" where
  "unload_grain user_id bin_id mass_to_unload bin_diameter w =
     (let (inventory_df, w1) = fetch_inventory_data user_id bin_id w in
      case column_Mass_tonnes inventory_df of
        Inl e \<Rightarrow> (Inl e, w1)
      | Inr masses \<Rightarrow>
          (let total_mass = sum_list masses in
           if mass_to_unload > total_mass then
             (Inr (), show_message (Not_enough_grain (mass_to_unload - total_mass)) w1)
           else
             (case unload_loop bin_diameter mass_to_unload [] inventory_df of
                Inl e \<Rightarrow> (Inl e, w1)
              | Inr preserved_rows \<Rightarrow>
                  (Inr (), update_inventory_data user_id bin_id preserved_rows w1))))"

subsection \<open>Adding a layer\<close>

text \<open>
  Lines 117 to 130 of the form \<open>inventory_form\<close>: the height of the new layer and the
  record \<open>new_grain_data\<close>. The clock reading \<open>current_time\<close> is a parameter.
\<close>

definition new_grain_data ::
  "string \<Rightarrow> string \<Rightarrow> real \<Rightarrow> real \<Rightarrow> real \<Rightarrow> real \<Rightarrow> py_error + row" where
  "new_grain_data current_time commodity mass test_weight moisture_content bin_diameter =
     (case py_div (mass * 1000) (pi * (bin_diameter / 2) ^ 2 * test_weight) of
        Inl e \<Rightarrow> Inl e
      | Inr height_m \<Rightarrow>
          Inr \<lparr>Date = current_time, Commodity = commodity, Mass_tonnes = mass,
               Test_Weight_kg_m3 = test_weight,
               Moisture_Content_percent = moisture_content, Height_m = height_m\<rparr>)"

text \<open>
  The body of \<open>if submit_button:\<close>. After the record is built, line 134 reads the name
  \<open>inventory_df\<close>. At the top level of the page that name is assigned at line 149 only
  (the one in \<open>unload_grain\<close> is local to that function), and every run of the page
  starts from an empty namespace: the read raises \<open>NameError\<close>, and the lines behind it
  (\<open>pd.concat\<close>, \<open>update_inventory_data\<close>, \<open>st.success\<close>) are not reached.
\<close>

definition inventory_form ::
  "string \<Rightarrow> string \<Rightarrow> real \<Rightarrow> string \<Rightarrow> string \<Rightarrow> real \<Rightarrow> real \<Rightarrow> real \<Rightarrow>
   world \<Rightarrow> (py_error + unit) \<times> world" where
  "inventory_form user_id selected_bin bin_diameter current_time
       commodity mass test_weight moisture_content w =
     (if test_weight > 0 then
        (case new_grain_data current_time commodity mass test_weight moisture_content
                bin_diameter of
           Inl e \<Rightarrow> (Inl e, w)
         | Inr new_grain_df \<Rightarrow> (Inl (NameError ''inventory_df''), w))
      else (Inr (), show_message Test_weight_must_be_greater_than_zero w))"

subsection \<open>The moisture of each band\<close>

text \<open>\<open>int(x)\<close> of a float truncates towards zero.\<close>

definition py_int :: "real \<Rightarrow> int" where
  "py_int x = (if x \<ge> 0 then \<lfloor>x\<rfloor> else \<lceil>x\<rceil>)"

text \<open>
  \<open>int((h / height) * 100)\<close> where \<open>h\<close> is a numpy float: dividing by zero gives an
  infinity or a NaN, which \<open>int\<close> refuses.
\<close>

definition band_index :: "real \<Rightarrow> real \<Rightarrow> py_error + int" where
  "band_index h height =
     (if height = 0 then (if h = 0 then Inl ValueError else Inl OverflowError)
      else Inr (py_int ((h / height) * 100)))"

text \<open>\<open>Series.cumsum()\<close>: the running sums.\<close>

fun cumsum_from :: "real \<Rightarrow> real list \<Rightarrow> real list" where
  "cumsum_from acc [] = []"
| "cumsum_from acc (x # xs) = (acc + x) # cumsum_from (acc + x) xs"

definition cumsum :: "real list \<Rightarrow> real list" where
  "cumsum xs = cumsum_from 0 xs"

text \<open>
  A bound of a slice over an axis of length \<open>n\<close>: a negative bound counts from the end,
  and a bound outside the axis is clipped to it.
\<close>

definition slice_bound :: "int \<Rightarrow> int \<Rightarrow> int" where
  "slice_bound n i = (if i < 0 then max (i + n) 0 else min i n)"

text \<open>
  \<open>moisture_heatmap[start_index:end_index, :] = v\<close>. Every row of the heat map is
  constant, so the map is kept as one value per row (band).
\<close>

definition assign_rows :: "int \<Rightarrow> int \<Rightarrow> real \<Rightarrow> real list \<Rightarrow> real list" where
  "assign_rows start_index end_index v heatmap =
     (let n = int (length heatmap);
          lo = slice_bound n start_index;
          hi = slice_bound n end_index
      in map (\<lambda>k. if lo \<le> int k \<and> int k < hi then v else heatmap ! k) [0..<length heatmap])"

text \<open>The \<open>for i in range(len(moisture_values))\<close> loop, over the indices still to visit.\<close>

fun heatmap_loop ::
  "real \<Rightarrow> real list \<Rightarrow> real list \<Rightarrow> nat list \<Rightarrow> real list \<Rightarrow> py_error + real list" where
  "heatmap_loop height grain_heights moisture_values [] heatmap = Inr heatmap"
| "heatmap_loop height grain_heights moisture_values (i # is) heatmap =
     (case (if i \<noteq> 0 then band_index (grain_heights ! (i - 1)) height else Inr 0) of
        Inl e \<Rightarrow> Inl e
      | Inr start_index \<Rightarrow>
          (case band_index (grain_heights ! i) height of
             Inl e \<Rightarrow> Inl e
           | Inr end_index \<Rightarrow>
               heatmap_loop height grain_heights moisture_values is
                 (assign_rows start_index end_index (moisture_values ! i) heatmap)))"

text \<open>
  \<open>create_bin_visualization\<close>. The figure it returns is represented by its
  \<open>surfacecolor\<close>, the heat map; \<open>None\<close> is returned for an empty frame.
\<close>

definition create_bin_visualization ::
  "real \<Rightarrow> real \<Rightarrow> dataframe \<Rightarrow> py_error + real list option" where
  "create_bin_visualization diameter height inventory_rows =
     (let moisture_heatmap = replicate 100 0 in
      if inventory_rows \<noteq> [] then
        (let grain_heights = cumsum (map Height_m inventory_rows);
             moisture_values = map Moisture_Content_percent inventory_rows
         in case heatmap_loop height grain_heights moisture_values
                   [0..<length moisture_values] moisture_heatmap of
              Inl e \<Rightarrow> Inl e
            | Inr heatmap \<Rightarrow> Inr (Some heatmap))
      else Inr None)"

subsection \<open>Example inventories\<close>

text \<open>
  The two layers of the specification's scenario (100 t of wheat at 750 kg per cubic metre under 50 t
  of corn at 720 kg per cubic metre, in a bin of diameter 10), a layer of mass 0 as the form admits
  it (\<open>min_value=0.0\<close>), and a layer as high as a bin of height 20.
\<close>

definition wheat_layer :: row where
  "wheat_layer = \<lparr>Date = ''2024-01-05 09:30'', Commodity = ''Wheat'', Mass_tonnes = 100,
     Test_Weight_kg_m3 = 750, Moisture_Content_percent = 14, Height_m = 16 / (3 * pi)\<rparr>"

definition corn_layer :: row where
  "corn_layer = \<lparr>Date = ''2024-02-11 14:05'', Commodity = ''Corn'', Mass_tonnes = 50,
     Test_Weight_kg_m3 = 720, Moisture_Content_percent = 18, Height_m = 25 / (9 * pi)\<rparr>"

definition zero_layer :: row where
  "zero_layer = \<lparr>Date = ''2024-01-02 08:00'', Commodity = ''Oats'', Mass_tonnes = 0,
     Test_Weight_kg_m3 = 500, Moisture_Content_percent = 12, Height_m = 0\<rparr>"

definition full_layer :: row where
  "full_layer = \<lparr>Date = ''2024-03-01 12:00'', Commodity = ''Rye'', Mass_tonnes = 1000,
     Test_Weight_kg_m3 = 700, Moisture_Content_percent = 15, Height_m = 20\<rparr>"

text \<open>Bin1 of User1 holds the two layers; every other bin is empty.\<close>

definition two_layers :: world where
  "two_layers =
     \<lparr>inventory = (\<lambda>k. if k = (''User1'', ''Bin1'') then [wheat_layer, corn_layer] else []),
      response_ok = True, shown = []\<rparr>"

definition zero_bottom :: world where
  "zero_bottom =
     \<lparr>inventory = (\<lambda>k. if k = (''User1'', ''Bin1'') then [zero_layer, corn_layer] else []),
      response_ok = True, shown = []\<rparr>"

section \<open>Properties\<close>

subsection \<open>The unload loop\<close>

lemma fetch_inventory_data_ok:
  "response_ok w \<Longrightarrow> fetch_inventory_data u b w = (inventory w (u, b), w)"
  by (simp add: fetch_inventory_data_def Let_def)

text \<open>Once nothing remains to be removed, the loop copies every row it still visits.\<close>

lemma unload_loop_nonpos:
  "remaining_mass \<le> 0 \<Longrightarrow>
   unload_loop d remaining_mass preserved_rows rows = Inr (preserved_rows @ rows)"
  by (induction rows arbitrary: preserved_rows) simp_all

text \<open>The rows behind a partially consumed row play no part in the result.\<close>

lemma unload_loop_break:
  "0 < remaining_mass \<Longrightarrow> remaining_mass < Mass_tonnes r \<Longrightarrow>
   unload_loop d remaining_mass preserved_rows (r # rows) =
   unload_loop d remaining_mass preserved_rows [r]"
  by simp

lemma total_mass_nonneg:
  "list_all (\<lambda>x. 0 \<le> Mass_tonnes x) rows \<Longrightarrow> 0 \<le> sum_list (map Mass_tonnes rows)"
  by (induction rows) simp_all

text \<open>Rows lighter, together, than the mass to remove are consumed whole.\<close>

lemma unload_loop_prefix:
  "list_all (\<lambda>x. 0 \<le> Mass_tonnes x) pre \<Longrightarrow>
   sum_list (map Mass_tonnes pre) < remaining_mass \<Longrightarrow>
   unload_loop d remaining_mass preserved_rows (pre @ rows) =
   unload_loop d (remaining_mass - sum_list (map Mass_tonnes pre)) preserved_rows rows"
proof (induction pre arbitrary: remaining_mass)
  case Nil
  then show ?case by simp
next
  case (Cons x pre)
  have nonneg: "0 \<le> sum_list (map Mass_tonnes pre)"
    using Cons.prems(1) by (simp add: total_mass_nonneg)
  have "0 \<le> Mass_tonnes x" using Cons.prems(1) by simp
  with Cons.prems(2) nonneg have a: "0 < remaining_mass" "Mass_tonnes x \<le> remaining_mass"
    by simp_all
  have "unload_loop d (remaining_mass - Mass_tonnes x) preserved_rows (pre @ rows) =
        unload_loop d (remaining_mass - Mass_tonnes x - sum_list (map Mass_tonnes pre))
          preserved_rows rows"
    using Cons.prems by (intro Cons.IH) simp_all
  with a show ?case by (simp add: algebra_simps)
qed

text \<open>
  On a bin that holds at least one layer, a request above the total mass is answered by
  the warning, which carries the shortfall, and the store is left as it was.
\<close>

lemma unload_grain_short:
  assumes "response_ok w" "inventory w (u, b) \<noteq> []"
    "sum_list (map Mass_tonnes (inventory w (u, b))) < m"
  shows "unload_grain u b m d w =
    (Inr (), show_message
       (Not_enough_grain (m - sum_list (map Mass_tonnes (inventory w (u, b))))) w)"
  using assms
  by (simp add: unload_grain_def fetch_inventory_data_ok column_Mass_tonnes_def)

text \<open>On such a bin, unloading nothing writes the layers back as they were.\<close>

lemma unload_grain_zero:
  assumes "response_ok w" "inventory w (u, b) \<noteq> []"
    "0 \<le> sum_list (map Mass_tonnes (inventory w (u, b)))"
  shows "unload_grain u b 0 d w = (Inr (), w)"
  using assms
  by (simp add: unload_grain_def fetch_inventory_data_ok column_Mass_tonnes_def
      unload_loop_nonpos update_inventory_data_def)

subsection \<open>Layers behind a partially consumed layer\<close>

text \<open>
  C1. The claim: when a layer is consumed in part, every layer after it is in the new
  inventory, unchanged and in order. The loop leaves through \<open>break\<close> right after it
  has appended the reduced row, so the rows behind it never reach \<open>preserved_rows\<close>:
  unloading 30 t from the wheat and corn layers stores the reduced wheat layer alone, and
  the corn layer is gone.
\<close>

theorem unload_grain_partial_loses_later_layers:
  "inventory (snd (unload_grain ''User1'' ''Bin1'' 30 10 two_layers)) (''User1'', ''Bin1'') =
     [wheat_layer\<lparr>Mass_tonnes := 70, Height_m := 70 * 1000 / (750 * pi * 25)\<rparr>]"
  by (simp add: unload_grain_def fetch_inventory_data_def column_Mass_tonnes_def two_layers_def
      wheat_layer_def corn_layer_def py_div_def update_inventory_data_def)

subsection \<open>Conservation of mass\<close>

text \<open>
  C2. The claim: after unloading \<open>m\<close> with \<open>0 \<le> m \<le> total\<close>, the total mass is the old
  total minus \<open>m\<close>. On the same input the old total is 150 t, so 120 t should remain;
  the stored inventory weighs 70 t, because the corn layer was dropped with the
  \<open>break\<close>.
\<close>

theorem unload_grain_total_mass_not_conserved:
  "sum_list (map Mass_tonnes (inventory two_layers (''User1'', ''Bin1''))) - 30 = 120 \<and>
   sum_list (map Mass_tonnes
     (inventory (snd (unload_grain ''User1'' ''Bin1'' 30 10 two_layers)) (''User1'', ''Bin1''))) = 70"
  by (simp add: unload_grain_def fetch_inventory_data_def column_Mass_tonnes_def two_layers_def
      wheat_layer_def corn_layer_def py_div_def update_inventory_data_def)

subsection \<open>Unloading more than the bin holds\<close>

text \<open>
  C3. The claim: for every inventory, the empty one included, a request above the total
  mass fails with the shortfall and changes nothing. For an inventory with layers this is
  \<open>unload_grain_short\<close>. For the empty bin the frame has no column \<open>Mass_tonnes\<close>, and the
  first line after the fetch raises \<open>KeyError\<close> before any shortfall is computed: asking
  5 t of the empty Bin2.
\<close>

theorem unload_grain_empty_bin_key_error:
  "unload_grain ''User1'' ''Bin2'' 5 10 two_layers = (Inl (KeyError ''Mass_tonnes''), two_layers)"
  by (simp add: unload_grain_def fetch_inventory_data_def column_Mass_tonnes_def two_layers_def)

subsection \<open>Unloading exactly the bottom layer\<close>

text \<open>
  C4. The claim: unloading the mass of the bottom layer removes that layer and keeps the
  others as they are. It holds when that mass is positive and no more than the total (as
  it is when no layer has a negative mass): the stored inventory is the rest of the list.
\<close>

theorem unload_grain_bottom_layer:
  assumes "response_ok w" "inventory w (u, b) = r # rest" "0 < Mass_tonnes r"
    "Mass_tonnes r \<le> sum_list (map Mass_tonnes (r # rest))"
  shows "unload_grain u b (Mass_tonnes r) d w =
    (Inr (), w\<lparr>inventory := (inventory w)((u, b) := rest)\<rparr>)"
  using assms
  by (simp add: unload_grain_def fetch_inventory_data_ok column_Mass_tonnes_def
      unload_loop_nonpos update_inventory_data_def)

theorem unload_grain_bottom_layer_witness:
  "response_ok two_layers \<and>
   inventory two_layers (''User1'', ''Bin1'') = [wheat_layer, corn_layer] \<and>
   0 < Mass_tonnes wheat_layer \<and>
   Mass_tonnes wheat_layer \<le> sum_list (map Mass_tonnes [wheat_layer, corn_layer]) \<and>
   unload_grain ''User1'' ''Bin1'' (Mass_tonnes wheat_layer) 10 two_layers =
     (Inr (), two_layers\<lparr>inventory :=
        (inventory two_layers)((''User1'', ''Bin1'') := [corn_layer])\<rparr>)"
  using unload_grain_bottom_layer
    [of two_layers "''User1''" "''Bin1''" wheat_layer "[corn_layer]" 10]
  by (simp add: two_layers_def wheat_layer_def corn_layer_def)

text \<open>
  A bottom layer of mass 0 is not removed: the request is then 0, the guard
  \<open>remaining_mass <= 0\<close> holds from the first row on, and every row is kept.
\<close>

theorem unload_grain_bottom_layer_counterexample:
  "inventory zero_bottom (''User1'', ''Bin1'') = [zero_layer, corn_layer] \<and>
   inventory (snd (unload_grain ''User1'' ''Bin1'' (Mass_tonnes zero_layer) 10 zero_bottom))
     (''User1'', ''Bin1'') = [zero_layer, corn_layer] \<and>
   [zero_layer, corn_layer] \<noteq> [corn_layer]"
  by (simp add: unload_grain_def fetch_inventory_data_def column_Mass_tonnes_def zero_bottom_def
      zero_layer_def corn_layer_def py_div_def update_inventory_data_def)

subsection \<open>The height of a new layer\<close>

text \<open>
  The record that the form builds has the height
  \<open>mass * 1000 / (test_weight * pi * (diameter / 2) ^ 2)\<close>.
\<close>

lemma new_grain_data_height:
  assumes "test_weight \<noteq> 0" "bin_diameter \<noteq> 0"
  shows "\<exists>layer.
     new_grain_data current_time commodity mass test_weight moisture_content bin_diameter =
       Inr layer \<and>
     Mass_tonnes layer = mass \<and> Test_Weight_kg_m3 layer = test_weight \<and>
     Height_m layer = mass * 1000 / (test_weight * pi * (bin_diameter / 2) ^ 2)"
  using assms by (simp add: new_grain_data_def py_div_def mult.commute mult.left_commute)

text \<open>
  The record goes no further: with a positive test weight and a diameter that is not 0,
  the form ends in the \<open>NameError\<close> and the world is the one it started from.
\<close>

lemma inventory_form_never_appends:
  assumes "test_weight > 0" "bin_diameter \<noteq> 0"
  shows "inventory_form user_id selected_bin bin_diameter current_time
       commodity mass test_weight moisture_content w = (Inl (NameError ''inventory_df''), w)"
  using assms by (simp add: inventory_form_def new_grain_data_def py_div_def)


subsection \<open>Bin capacity on every input\<close>

text \<open>
  C6. The claim: the capacity is \<open>pi * (diameter / 2) ^ 2 * height\<close> for positive
  arguments, and the computation fails for a diameter or height that is not positive.
  The function checks nothing: it returns the same product for every pair of arguments
  (the page keeps both at 0.1 or more through the \<open>min_value\<close> of its number inputs).
\<close>

theorem calculate_bin_capacity_total:
  "calculate_bin_capacity diameter height = Inr (pi * (diameter / 2) ^ 2 * height)"
  by (simp add: calculate_bin_capacity_def)

text \<open>A diameter of 0 with a height of 5 gives the capacity 0, not an error.\<close>

theorem calculate_bin_capacity_counterexample:
  "calculate_bin_capacity 0 5 = Inr 0"
  by (simp add: calculate_bin_capacity_def)

subsection \<open>A test weight that is not positive\<close>

text \<open>
  C7. With a test weight of 0 or less the form shows the error about the test weight and
  does nothing else: no row is built, nothing is sent to the store, and the world differs
  from the one before by that message only.
\<close>

theorem inventory_form_rejects_test_weight:
  assumes "test_weight \<le> 0"
  shows "inventory_form user_id selected_bin bin_diameter current_time
       commodity mass test_weight moisture_content w =
     (Inr (), w\<lparr>shown := shown w @ [Test_weight_must_be_greater_than_zero]\<rparr>)"
  using assms by (simp add: inventory_form_def show_message_def)

theorem inventory_form_rejects_test_weight_witness:
  "(0::real) \<le> 0 \<and>
   inventory_form ''User1'' ''Bin1'' 10 ''2024-03-01 12:00''
       ''Rye'' 5 0 15 two_layers =
     (Inr (), two_layers\<lparr>shown := shown two_layers @ [Test_weight_must_be_greater_than_zero]\<rparr>)"
  using inventory_form_rejects_test_weight [of 0 "''User1''" "''Bin1''" 10
      "''2024-03-01 12:00''" "''Rye''" 5 15 two_layers]
  by simp

subsection \<open>The moisture bands of a full bin and of an empty one\<close>

lemma assign_rows_all:
  "assign_rows 0 (int (length heatmap)) v heatmap = replicate (length heatmap) v"
  by (rule nth_equalityI) (simp_all add: assign_rows_def slice_bound_def)

lemma band_index_top: "height \<noteq> 0 \<Longrightarrow> band_index height height = Inr 100"
  by (simp add: band_index_def py_int_def)

text \<open>
  C8. For an inventory of one layer as high as the bin (whose height is not 0), each of
  the 100 bands of the heat map holds the moisture of that layer; for the empty inventory
  the function returns \<open>None\<close>.
\<close>

theorem create_bin_visualization_bands:
  "(height \<noteq> 0 \<and> Height_m r = height \<longrightarrow>
      create_bin_visualization diameter height [r] =
        Inr (Some (replicate 100 (Moisture_Content_percent r)))) \<and>
   create_bin_visualization diameter height [] = Inr None"
proof (intro conjI impI)
  assume a: "height \<noteq> 0 \<and> Height_m r = height"
  have "assign_rows 0 100 (Moisture_Content_percent r) (replicate 100 0) =
        replicate 100 (Moisture_Content_percent r)"
    using assign_rows_all [of "replicate 100 0" "Moisture_Content_percent r"] by simp
  with a show "create_bin_visualization diameter height [r] =
      Inr (Some (replicate 100 (Moisture_Content_percent r)))"
    by (simp add: create_bin_visualization_def cumsum_def band_index_top)
next
  show "create_bin_visualization diameter height [] = Inr None"
    by (simp add: create_bin_visualization_def)
qed

theorem create_bin_visualization_bands_witness:
  "(20::real) \<noteq> 0 \<and> Height_m full_layer = 20 \<and>
   create_bin_visualization 10 20 [full_layer] = Inr (Some (replicate 100 15)) \<and>
   create_bin_visualization 10 20 [] = Inr None"
  using create_bin_visualization_bands [of 20 full_layer 10] by (simp add: full_layer_def)

subsection \<open>The fields of a partially consumed layer\<close>

text \<open>
  C9. Let the inventory be \<open>pre @ r # post\<close> with no negative mass, and let the mass to
  unload exceed the mass of \<open>pre\<close> by less than the mass of \<open>r\<close>, so that \<open>r\<close> is the layer
  consumed in part (its test weight and the diameter not 0). Then the stored inventory
  starts with a row that has the date, commodity, test weight and moisture of \<open>r\<close>; its
  mass is what was left of \<open>r\<close>, and its height is computed again from that mass.
\<close>

theorem unload_grain_partial_layer_fields:
  assumes ok: "response_ok w"
    and inv: "inventory w (u, b) = pre @ r # post"
    and nonneg: "list_all (\<lambda>x. 0 \<le> Mass_tonnes x) (inventory w (u, b))"
    and lo: "sum_list (map Mass_tonnes pre) < m"
    and hi: "m < sum_list (map Mass_tonnes pre) + Mass_tonnes r"
    and tw: "Test_Weight_kg_m3 r \<noteq> 0" and d: "d \<noteq> 0"
  shows "\<exists>r' rest.
     unload_grain u b m d w =
       (Inr (), w\<lparr>inventory := (inventory w)((u, b) := r' # rest)\<rparr>) \<and>
     Date r' = Date r \<and> Commodity r' = Commodity r \<and>
     Test_Weight_kg_m3 r' = Test_Weight_kg_m3 r \<and>
     Moisture_Content_percent r' = Moisture_Content_percent r \<and>
     Mass_tonnes r' = Mass_tonnes r - (m - sum_list (map Mass_tonnes pre)) \<and>
     Height_m r' = Mass_tonnes r' * 1000 / (Test_Weight_kg_m3 r * pi * (d / 2) ^ 2)"
proof -
  let ?rem = "m - sum_list (map Mass_tonnes pre)"
  let ?r' = "r\<lparr>Mass_tonnes := Mass_tonnes r - ?rem,
     Height_m := (Mass_tonnes r - ?rem) * 1000 / (Test_Weight_kg_m3 r * pi * (d / 2) ^ 2)\<rparr>"
  have pre: "list_all (\<lambda>x. 0 \<le> Mass_tonnes x) pre" using nonneg inv by simp
  have post: "0 \<le> sum_list (map Mass_tonnes post)"
    using nonneg inv by (simp add: total_mass_nonneg)
  have total: "m \<le> sum_list (map Mass_tonnes (inventory w (u, b)))"
    using hi post inv by simp
  have "unload_loop d m [] (pre @ r # post) = unload_loop d ?rem [] (r # post)"
    using pre lo by (rule unload_loop_prefix)
  also have "\<dots> = Inr [?r']"
    using lo hi tw d by (simp add: py_div_def)
  finally have loop: "unload_loop d m [] (inventory w (u, b)) = Inr [?r']"
    using inv by simp
  have "unload_grain u b m d w = (Inr (), w\<lparr>inventory := (inventory w)((u, b) := [?r'])\<rparr>)"
    using ok total loop inv
    by (simp add: unload_grain_def fetch_inventory_data_ok column_Mass_tonnes_def
        update_inventory_data_def)
  then show ?thesis by (intro exI [of _ ?r'] exI [of _ "[]"]) simp
qed

theorem unload_grain_partial_layer_fields_witness:
  "response_ok two_layers \<and>
   inventory two_layers (''User1'', ''Bin1'') = [wheat_layer] @ corn_layer # [] \<and>
   list_all (\<lambda>x. 0 \<le> Mass_tonnes x) (inventory two_layers (''User1'', ''Bin1'')) \<and>
   sum_list (map Mass_tonnes [wheat_layer]) < 120 \<and>
   120 < sum_list (map Mass_tonnes [wheat_layer]) + Mass_tonnes corn_layer \<and>
   Test_Weight_kg_m3 corn_layer \<noteq> 0 \<and> (10::real) \<noteq> 0 \<and>
   (\<exists>r' rest.
     unload_grain ''User1'' ''Bin1'' 120 10 two_layers =
       (Inr (), two_layers\<lparr>inventory :=
          (inventory two_layers)((''User1'', ''Bin1'') := r' # rest)\<rparr>) \<and>
     Date r' = ''2024-02-11 14:05'' \<and> Commodity r' = ''Corn'' \<and>
     Test_Weight_kg_m3 r' = 720 \<and> Moisture_Content_percent r' = 18 \<and>
     Mass_tonnes r' = 30 \<and>
     Height_m r' = 30 * 1000 / (720 * pi * (10 / 2) ^ 2))"
proof -
  have h: "response_ok two_layers"
    "inventory two_layers (''User1'', ''Bin1'') = [wheat_layer] @ corn_layer # []"
    "list_all (\<lambda>x. 0 \<le> Mass_tonnes x) (inventory two_layers (''User1'', ''Bin1''))"
    "sum_list (map Mass_tonnes [wheat_layer]) < 120"
    "120 < sum_list (map Mass_tonnes [wheat_layer]) + Mass_tonnes corn_layer"
    "Test_Weight_kg_m3 corn_layer \<noteq> 0" "(10::real) \<noteq> 0"
    by (simp_all add: two_layers_def wheat_layer_def corn_layer_def)
  from unload_grain_partial_layer_fields [OF h] obtain r' rest where
    r': "unload_grain ''User1'' ''Bin1'' 120 10 two_layers =
       (Inr (), two_layers\<lparr>inventory :=
          (inventory two_layers)((''User1'', ''Bin1'') := r' # rest)\<rparr>)"
      "Date r' = Date corn_layer" "Commodity r' = Commodity corn_layer"
      "Test_Weight_kg_m3 r' = Test_Weight_kg_m3 corn_layer"
      "Moisture_Content_percent r' = Moisture_Content_percent corn_layer"
      "Mass_tonnes r' = Mass_tonnes corn_layer - (120 - sum_list (map Mass_tonnes [wheat_layer]))"
      "Height_m r' = Mass_tonnes r' * 1000 / (Test_Weight_kg_m3 corn_layer * pi * (10 / 2) ^ 2)"
    by blast
  have "unload_grain ''User1'' ''Bin1'' 120 10 two_layers =
       (Inr (), two_layers\<lparr>inventory :=
          (inventory two_layers)((''User1'', ''Bin1'') := r' # rest)\<rparr>) \<and>
     Date r' = ''2024-02-11 14:05'' \<and> Commodity r' = ''Corn'' \<and>
     Test_Weight_kg_m3 r' = 720 \<and> Moisture_Content_percent r' = 18 \<and>
     Mass_tonnes r' = 30 \<and>
     Height_m r' = 30 * 1000 / (720 * pi * (10 / 2) ^ 2)"
    using r' by (simp add: wheat_layer_def corn_layer_def)
  then have "\<exists>r' rest.
     unload_grain ''User1'' ''Bin1'' 120 10 two_layers =
       (Inr (), two_layers\<lparr>inventory :=
          (inventory two_layers)((''User1'', ''Bin1'') := r' # rest)\<rparr>) \<and>
     Date r' = ''2024-02-11 14:05'' \<and> Commodity r' = ''Corn'' \<and>
     Test_Weight_kg_m3 r' = 720 \<and> Moisture_Content_percent r' = 18 \<and>
     Mass_tonnes r' = 30 \<and>
     Height_m r' = 30 * 1000 / (720 * pi * (10 / 2) ^ 2)"
    by blast
  with h show ?thesis by blast
qed

subsection \<open>Unloading nothing\<close>

text \<open>
  C10. The claim: unloading 0 succeeds on every inventory, the empty one included, and
  stores the inventory it found. For an inventory with layers (and a total that is not
  negative) this is \<open>unload_grain_zero\<close>. On the empty bin the call does not succeed: the
  frame has no column \<open>Mass_tonnes\<close> and the total cannot be computed.
\<close>

theorem unload_grain_zero_empty_bin_key_error:
  "unload_grain ''User1'' ''Bin2'' 0 10 two_layers = (Inl (KeyError ''Mass_tonnes''), two_layers)"
  by (simp add: unload_grain_def fetch_inventory_data_def column_Mass_tonnes_def two_layers_def)

end
